theory Spec2Isabelle
  imports Main
begin

section \<open>The Go library functions the scanner calls\<close>

text \<open>
  Go strings are byte sequences; they are modelled as \<^typ>\<open>string\<close>. A \<^verbatim>\<open>*string\<close> is a
  \<^typ>\<open>string option\<close>, with \<^term>\<open>None\<close> for the nil pointer.
\<close>

text \<open>\<^verbatim>\<open>aws.ToString\<close>: the pointed-to string, and the empty string for nil.\<close>

definition aws_ToString :: "string option \<Rightarrow> string" where
  "aws_ToString p = (case p of None \<Rightarrow> [] | Some s \<Rightarrow> s)"

text \<open>
  \<^verbatim>\<open>strings.Split(s, ",")\<close>: the pieces of \<open>s\<close> between the commas. A string with \<open>n\<close>
  commas has \<open>n + 1\<close> pieces; in particular the empty string has the single piece \<open>""\<close>.
\<close>

fun strings_Split_comma :: "string \<Rightarrow> string list" where
  "strings_Split_comma [] = [[]]"
| "strings_Split_comma (c # cs) =
     (if c = CHR '','' then [] # strings_Split_comma cs
      else (case strings_Split_comma cs of
              [] \<Rightarrow> [[c]]
            | w # ws \<Rightarrow> (c # w) # ws))"

text \<open>\<^verbatim>\<open>slices.Contains\<close>: some element equals the value.\<close>

fun slices_Contains :: "'a list \<Rightarrow> 'a \<Rightarrow> bool" where
  "slices_Contains [] v = False"
| "slices_Contains (x # xs) v = (x = v \<or> slices_Contains xs v)"

text \<open>\<^verbatim>\<open>strings.HasPrefix\<close> and \<^verbatim>\<open>strings.Contains\<close>.\<close>

fun strings_HasPrefix :: "string \<Rightarrow> string \<Rightarrow> bool" where
  "strings_HasPrefix s [] = True"
| "strings_HasPrefix [] (p # ps) = False"
| "strings_HasPrefix (c # cs) (p # ps) = (c = p \<and> strings_HasPrefix cs ps)"

fun strings_Contains :: "string \<Rightarrow> string \<Rightarrow> bool" where
  "strings_Contains [] sub = (sub = [])"
| "strings_Contains (c # cs) sub =
     (strings_HasPrefix (c # cs) sub \<or> strings_Contains cs sub)"

text \<open>
  A Go slice is nil or holds a sequence of elements; \<^verbatim>\<open>append\<close> to a nil slice gives
  a slice of one element. (Capacity and aliasing play no role in the scanner.)
\<close>

datatype 'a slice = Nil_slice | Slice "'a list"

fun go_append :: "'a slice \<Rightarrow> 'a \<Rightarrow> 'a slice" where
  "go_append Nil_slice x = Slice [x]"
| "go_append (Slice xs) x = Slice (xs @ [x])"

fun elems :: "'a slice \<Rightarrow> 'a list" where
  "elems Nil_slice = []"
| "elems (Slice xs) = xs"

section \<open>The data model\<close>

text \<open>
  The record of one bucket, field by field as the struct \<^verbatim>\<open>BucketInfo\<close> of
  \<^verbatim>\<open>s3-bucket-scanner.go\<close> declares it. The outputs of the SDK are opaque to the program:
  they are values of a type \<open>'o\<close>. A pointer field is an \<open>'o option\<close>, a field of type
  \<^verbatim>\<open>[]*Output\<close> a slice of such pointers.
\<close>

record 'o BucketInfo =
  Name :: string
  AccelerateConfig :: "'o option"
  ACL :: "'o option"
  AnalyticsConfig :: "'o option slice"
  CORSConfig :: "'o option"
  EncryptionConfig :: "'o option"
  IntelligentTieringConfig :: "'o option slice"
  InventoryConfig :: "'o option slice"
  LifecycleConfig :: "'o option"
  Location :: "'o option"
  LoggingConfig :: "'o option"
  MetricsConfig :: "'o option slice"
  NotificationConfig :: "'o option"
  OwnershipControlsConfig :: "'o option"
  Policy :: "'o option"
  PolicyStatus :: "'o option"
  ReplicationConfig :: "'o option"
  RequestPaymentConfig :: "'o option"
  TaggingConfig :: "'o option"
  VersioningConfig :: "'o option"

text \<open>The composite literal \<^verbatim>\<open>BucketInfo{Name: aws.ToString(bucket.Name)}\<close>: every other
  field has its zero value, nil.\<close>

definition new_BucketInfo :: "string option \<Rightarrow> 'o BucketInfo" where
  "new_BucketInfo b =
     \<lparr> Name = aws_ToString b,
       AccelerateConfig = None, ACL = None, AnalyticsConfig = Nil_slice,
       CORSConfig = None, EncryptionConfig = None,
       IntelligentTieringConfig = Nil_slice, InventoryConfig = Nil_slice,
       LifecycleConfig = None, Location = None, LoggingConfig = None,
       MetricsConfig = Nil_slice, NotificationConfig = None,
       OwnershipControlsConfig = None, Policy = None, PolicyStatus = None,
       ReplicationConfig = None, RequestPaymentConfig = None,
       TaggingConfig = None, VersioningConfig = None \<rparr>"

section \<open>The environment of a run\<close>

text \<open>The operations of the S3 client that the scanner calls on a bucket.\<close>

datatype api =
    GetBucketAccelerateConfiguration
  | GetBucketAcl
  | ListBucketAnalyticsConfigurations
  | GetBucketAnalyticsConfiguration
  | GetBucketCors
  | GetBucketEncryption
  | ListBucketIntelligentTieringConfigurations
  | GetBucketIntelligentTieringConfiguration
  | ListBucketInventoryConfigurations
  | GetBucketInventoryConfiguration
  | GetBucketLifecycleConfiguration
  | GetBucketLocation
  | GetBucketLogging
  | ListBucketMetricsConfigurations
  | GetBucketMetricsConfiguration
  | GetBucketNotificationConfiguration
  | GetBucketOwnershipControls
  | GetBucketPolicy
  | GetBucketPolicyStatus
  | GetBucketReplication
  | GetBucketRequestPayment
  | GetBucketTagging
  | GetBucketVersioning

text \<open>
  A JSON document. The outputs of the SDK are structs of strings, numbers, booleans and
  nested structs; a number is kept as its literal.
\<close>

datatype json =
    JNull
  | JBool bool
  | JNumber string
  | JString string
  | JArray "json list"
  | JObject "(string \<times> json) list"

text \<open>
  What a run depends on. An SDK operation returns a pair of an output pointer and an error,
  the output being nil whenever the error is not: a response is a sum, \<^term>\<open>Inl\<close> the
  text of the error (what \<^verbatim>\<open>err.Error()\<close> returns) and \<^term>\<open>Inr\<close> the output. A bucket
  and a configuration ID are passed to the SDK as the \<^verbatim>\<open>*string\<close> that the listing held.
  The responses are those of an account that does not change during the run.

  \<^item> \<open>EXCLUDED_BUCKETS\<close>: what \<^verbatim>\<open>os.Getenv("EXCLUDED_BUCKETS")\<close> returns, the empty string
    when the variable is not set;
  \<^item> \<open>load_config\<close>: the error of \<^verbatim>\<open>config.LoadDefaultConfig\<close>, if any;
  \<^item> \<open>list_buckets\<close>: the response of \<^verbatim>\<open>ListBuckets\<close>, the \<^verbatim>\<open>Name\<close> of each bucket;
  \<^item> \<open>get_call\<close>: the response of a Get operation on a bucket (and an ID);
  \<^item> \<open>list_call\<close>: the response of a List operation on a bucket, the \<^verbatim>\<open>Id\<close> of each
    configuration of the list;
  \<^item> \<open>create_file\<close>: the error of \<^verbatim>\<open>os.Create("bucket_info.json")\<close>, if any;
  \<^item> \<open>marshal_output\<close>: the JSON object that \<^verbatim>\<open>encoding/json\<close> makes of an SDK output, or
    the error it reports;
  \<^item> \<open>render\<close>: the text of a document as the encoder writes it, indented by two spaces.
\<close>

record 'o env =
  EXCLUDED_BUCKETS :: string
  load_config :: "string option"
  list_buckets :: "string + string option list"
  get_call :: "api \<Rightarrow> string option \<Rightarrow> string option \<Rightarrow> string + 'o"
  list_call :: "api \<Rightarrow> string option \<Rightarrow> string + string option list"
  create_file :: "string option"
  marshal_output :: "'o \<Rightarrow> string + (string \<times> json) list"
  render :: "json \<Rightarrow> string"

text \<open>The two components of a response, as Go returns them.\<close>

definition resp_of :: "string + 'a \<Rightarrow> 'a option" where
  "resp_of r = (case r of Inl e \<Rightarrow> None | Inr x \<Rightarrow> Some x)"

definition err_of :: "string + 'a \<Rightarrow> string option" where
  "err_of r = (case r of Inl e \<Rightarrow> Some e | Inr x \<Rightarrow> None)"

section \<open>Effects\<close>

text \<open>
  What the process does that can be observed from outside, in the order it does it:
  the calls to the provider, the message of \<^verbatim>\<open>log.Fatalf\<close> (which then exits with
  status 1; the time stamp that the logger puts before the message is left out), the
  run-time panic of a nil dereference (exit status 2), the creation of the output file,
  the write to it, and the line printed on standard output.
\<close>

datatype event =
    Ev_LoadDefaultConfig
  | Ev_ListBuckets
  | Ev_Call api "string option" "string option"
  | Ev_Fatalf string
  | Ev_Panic
  | Ev_Create
  | Ev_Write string
  | Ev_Println string

text \<open>
  A computation yields the events it caused and its value, or no value when the process
  has terminated in it.
\<close>

type_synonym 'a io = "event list \<times> 'a option"

definition return_io :: "'a \<Rightarrow> 'a io" where
  "return_io x = ([], Some x)"

definition bind_io :: "'a io \<Rightarrow> ('a \<Rightarrow> 'b io) \<Rightarrow> 'b io" where
  "bind_io m f =
     (case m of
        (tr, None) \<Rightarrow> (tr, None)
      | (tr, Some x) \<Rightarrow> (case f x of (tr', r) \<Rightarrow> (tr @ tr', r)))"

definition emit :: "event \<Rightarrow> unit io" where
  "emit e = ([e], Some ())"

text \<open>\<^verbatim>\<open>log.Fatalf(format, err)\<close>: \<open>msg\<close> is the format up to the error.\<close>

definition fatalf :: "string \<Rightarrow> string \<Rightarrow> 'a io" where
  "fatalf msg e = ([Ev_Fatalf (msg @ e)], None)"

text \<open>
  \<^verbatim>\<open>log.Fatalf(format, err, *bucket.Name)\<close>: the arguments are evaluated first, and the
  dereference of a nil name panics.
\<close>

definition fatalf_bucket :: "string \<Rightarrow> string \<Rightarrow> string option \<Rightarrow> 'a io" where
  "fatalf_bucket msg e b =
     (case b of
        None \<Rightarrow> ([Ev_Panic], None)
      | Some n \<Rightarrow> ([Ev_Fatalf (msg @ e @ '', '' @ n)], None))"

definition call_get ::
  "'o env \<Rightarrow> api \<Rightarrow> string option \<Rightarrow> string option \<Rightarrow> (string + 'o) io" where
  "call_get env op b i = ([Ev_Call op b i], Some (get_call env op b i))"

definition call_list ::
  "'o env \<Rightarrow> api \<Rightarrow> string option \<Rightarrow> (string + string option list) io" where
  "call_list env op b = ([Ev_Call op b None], Some (list_call env op b))"

section \<open>The sub-resource calls of one bucket\<close>

text \<open>
  The body of the loop of \<^verbatim>\<open>main\<close> is a sequence of blocks, each of which calls the
  provider and stores the output in one field of \<^verbatim>\<open>bucketInfo\<close>. They come in three shapes.

  The first: \<^verbatim>\<open>if err != nil { log.Fatalf(..) } else { bucketInfo.F = resp }\<close>.
\<close>

definition strict_block ::
  "'o env \<Rightarrow> api \<Rightarrow> string \<Rightarrow> ('o option \<Rightarrow> 'o BucketInfo \<Rightarrow> 'o BucketInfo) \<Rightarrow>
     string option \<Rightarrow> 'o BucketInfo \<Rightarrow> 'o BucketInfo io" where
  "strict_block env op msg store b info =
     bind_io (call_get env op b None) (\<lambda>r.
       case err_of r of
         Some e \<Rightarrow> fatalf_bucket msg e b
       | None \<Rightarrow> return_io (store (resp_of r) info))"

text \<open>
  The second:
  \<^verbatim>\<open>if err != nil && !strings.Contains(err.Error(), marker) { log.Fatalf(..) }
   else { bucketInfo.F = resp }\<close>.
\<close>

definition tolerant_block ::
  "'o env \<Rightarrow> api \<Rightarrow> string \<Rightarrow> string \<Rightarrow> ('o option \<Rightarrow> 'o BucketInfo \<Rightarrow> 'o BucketInfo) \<Rightarrow>
     string option \<Rightarrow> 'o BucketInfo \<Rightarrow> 'o BucketInfo io" where
  "tolerant_block env op marker msg store b info =
     bind_io (call_get env op b None) (\<lambda>r.
       case err_of r of
         Some e \<Rightarrow>
           if \<not> strings_Contains e marker then fatalf_bucket msg e b
           else return_io (store (resp_of r) info)
       | None \<Rightarrow> return_io (store (resp_of r) info))"

text \<open>
  The third lists the configurations of the bucket and fetches each by its ID, appending
  the output to the field; an error of the listing or of a fetch is fatal. (The
  \<^verbatim>\<open>continue\<close> that follows each \<^verbatim>\<open>log.Fatalf\<close> in these blocks is never reached.)
\<close>

fun fetch_each ::
  "'o env \<Rightarrow> api \<Rightarrow> string \<Rightarrow> ('o option \<Rightarrow> 'o BucketInfo \<Rightarrow> 'o BucketInfo) \<Rightarrow>
     string option \<Rightarrow> string option list \<Rightarrow> 'o BucketInfo \<Rightarrow> 'o BucketInfo io" where
  "fetch_each env op msg push b [] info = return_io info"
| "fetch_each env op msg push b (i # ids) info =
     bind_io (call_get env op b i) (\<lambda>r.
       case err_of r of
         Some e \<Rightarrow> fatalf_bucket msg e b
       | None \<Rightarrow> fetch_each env op msg push b ids (push (resp_of r) info))"

definition listing_block ::
  "'o env \<Rightarrow> api \<Rightarrow> string \<Rightarrow> api \<Rightarrow> string \<Rightarrow>
     ('o option \<Rightarrow> 'o BucketInfo \<Rightarrow> 'o BucketInfo) \<Rightarrow>
     string option \<Rightarrow> 'o BucketInfo \<Rightarrow> 'o BucketInfo io" where
  "listing_block env lop lmsg gop gmsg push b info =
     bind_io (call_list env lop b) (\<lambda>l.
       case l of
         Inl e \<Rightarrow> fatalf_bucket lmsg e b
       | Inr ids \<Rightarrow> fetch_each env gop gmsg push b ids info)"

text \<open>The twenty blocks, in the order of the source.\<close>

definition accelerate_block ::
  "'o env \<Rightarrow> string option \<Rightarrow> 'o BucketInfo \<Rightarrow> 'o BucketInfo io" where
  "accelerate_block env =
     strict_block env GetBucketAccelerateConfiguration
       ''failed to get bucket accelerate configuration: ''
       (\<lambda>r info. info\<lparr>AccelerateConfig := r\<rparr>)"

definition acl_block ::
  "'o env \<Rightarrow> string option \<Rightarrow> 'o BucketInfo \<Rightarrow> 'o BucketInfo io" where
  "acl_block env =
     strict_block env GetBucketAcl
       ''failed to get bucket ACL: ''
       (\<lambda>r info. info\<lparr>ACL := r\<rparr>)"

definition analytics_block ::
  "'o env \<Rightarrow> string option \<Rightarrow> 'o BucketInfo \<Rightarrow> 'o BucketInfo io" where
  "analytics_block env =
     listing_block env ListBucketAnalyticsConfigurations
       ''failed to list bucket analytics configurations: ''
       GetBucketAnalyticsConfiguration
       ''failed to get bucket analytics configuration: ''
       (\<lambda>r info. info\<lparr>AnalyticsConfig := go_append (AnalyticsConfig info) r\<rparr>)"

definition cors_block ::
  "'o env \<Rightarrow> string option \<Rightarrow> 'o BucketInfo \<Rightarrow> 'o BucketInfo io" where
  "cors_block env =
     tolerant_block env GetBucketCors ''NoSuchCORSConfiguration''
       ''failed to get bucket CORS configuration: ''
       (\<lambda>r info. info\<lparr>CORSConfig := r\<rparr>)"

definition encryption_block ::
  "'o env \<Rightarrow> string option \<Rightarrow> 'o BucketInfo \<Rightarrow> 'o BucketInfo io" where
  "encryption_block env =
     strict_block env GetBucketEncryption
       ''failed to get bucket encryption configuration: ''
       (\<lambda>r info. info\<lparr>EncryptionConfig := r\<rparr>)"

definition intelligent_tiering_block ::
  "'o env \<Rightarrow> string option \<Rightarrow> 'o BucketInfo \<Rightarrow> 'o BucketInfo io" where
  "intelligent_tiering_block env =
     listing_block env ListBucketIntelligentTieringConfigurations
       ''failed to list bucket intelligent tiering configurations: ''
       GetBucketIntelligentTieringConfiguration
       ''failed to get bucket intelligent tiering configuration: ''
       (\<lambda>r info. info\<lparr>IntelligentTieringConfig :=
                       go_append (IntelligentTieringConfig info) r\<rparr>)"

definition inventory_block ::
  "'o env \<Rightarrow> string option \<Rightarrow> 'o BucketInfo \<Rightarrow> 'o BucketInfo io" where
  "inventory_block env =
     listing_block env ListBucketInventoryConfigurations
       ''failed to list bucket inventory configurations: ''
       GetBucketInventoryConfiguration
       ''failed to get bucket inventory configuration: ''
       (\<lambda>r info. info\<lparr>InventoryConfig := go_append (InventoryConfig info) r\<rparr>)"

definition lifecycle_block ::
  "'o env \<Rightarrow> string option \<Rightarrow> 'o BucketInfo \<Rightarrow> 'o BucketInfo io" where
  "lifecycle_block env =
     tolerant_block env GetBucketLifecycleConfiguration ''NoSuchLifecycleConfiguration''
       ''failed to get bucket lifecycle configuration: ''
       (\<lambda>r info. info\<lparr>LifecycleConfig := r\<rparr>)"

definition location_block ::
  "'o env \<Rightarrow> string option \<Rightarrow> 'o BucketInfo \<Rightarrow> 'o BucketInfo io" where
  "location_block env =
     strict_block env GetBucketLocation
       ''failed to get bucket location: ''
       (\<lambda>r info. info\<lparr>Location := r\<rparr>)"

definition logging_block ::
  "'o env \<Rightarrow> string option \<Rightarrow> 'o BucketInfo \<Rightarrow> 'o BucketInfo io" where
  "logging_block env =
     strict_block env GetBucketLogging
       ''failed to get bucket logging configuration: ''
       (\<lambda>r info. info\<lparr>LoggingConfig := r\<rparr>)"

definition metrics_block ::
  "'o env \<Rightarrow> string option \<Rightarrow> 'o BucketInfo \<Rightarrow> 'o BucketInfo io" where
  "metrics_block env =
     listing_block env ListBucketMetricsConfigurations
       ''failed to list bucket metrics configurations: ''
       GetBucketMetricsConfiguration
       ''failed to get bucket metrics configuration: ''
       (\<lambda>r info. info\<lparr>MetricsConfig := go_append (MetricsConfig info) r\<rparr>)"

definition notification_block ::
  "'o env \<Rightarrow> string option \<Rightarrow> 'o BucketInfo \<Rightarrow> 'o BucketInfo io" where
  "notification_block env =
     strict_block env GetBucketNotificationConfiguration
       ''failed to get bucket notification configuration: ''
       (\<lambda>r info. info\<lparr>NotificationConfig := r\<rparr>)"

definition ownership_controls_block ::
  "'o env \<Rightarrow> string option \<Rightarrow> 'o BucketInfo \<Rightarrow> 'o BucketInfo io" where
  "ownership_controls_block env =
     tolerant_block env GetBucketOwnershipControls ''OwnershipControlsNotFoundError''
       ''failed to get bucket ownership controls configuration: ''
       (\<lambda>r info. info\<lparr>OwnershipControlsConfig := r\<rparr>)"

definition policy_block ::
  "'o env \<Rightarrow> string option \<Rightarrow> 'o BucketInfo \<Rightarrow> 'o BucketInfo io" where
  "policy_block env =
     tolerant_block env GetBucketPolicy ''NoSuchBucketPolicy''
       ''failed to get bucket policy: ''
       (\<lambda>r info. info\<lparr>Policy := r\<rparr>)"

definition policy_status_block ::
  "'o env \<Rightarrow> string option \<Rightarrow> 'o BucketInfo \<Rightarrow> 'o BucketInfo io" where
  "policy_status_block env =
     tolerant_block env GetBucketPolicyStatus ''NoSuchBucketPolicy''
       ''failed to get bucket policy status: ''
       (\<lambda>r info. info\<lparr>PolicyStatus := r\<rparr>)"

definition replication_block ::
  "'o env \<Rightarrow> string option \<Rightarrow> 'o BucketInfo \<Rightarrow> 'o BucketInfo io" where
  "replication_block env =
     tolerant_block env GetBucketReplication ''ReplicationConfigurationNotFoundError''
       ''failed to get bucket replication configuration: ''
       (\<lambda>r info. info\<lparr>ReplicationConfig := r\<rparr>)"

definition request_payment_block ::
  "'o env \<Rightarrow> string option \<Rightarrow> 'o BucketInfo \<Rightarrow> 'o BucketInfo io" where
  "request_payment_block env =
     strict_block env GetBucketRequestPayment
       ''failed to get bucket request payment configuration: ''
       (\<lambda>r info. info\<lparr>RequestPaymentConfig := r\<rparr>)"

definition tagging_block ::
  "'o env \<Rightarrow> string option \<Rightarrow> 'o BucketInfo \<Rightarrow> 'o BucketInfo io" where
  "tagging_block env =
     tolerant_block env GetBucketTagging ''NoSuchTagSet''
       ''failed to get bucket tagging configuration: ''
       (\<lambda>r info. info\<lparr>TaggingConfig := r\<rparr>)"

definition versioning_block ::
  "'o env \<Rightarrow> string option \<Rightarrow> 'o BucketInfo \<Rightarrow> 'o BucketInfo io" where
  "versioning_block env =
     strict_block env GetBucketVersioning
       ''failed to get bucket versioning configuration: ''
       (\<lambda>r info. info\<lparr>VersioningConfig := r\<rparr>)"

text \<open>Blocks run one after the other on the record, until one of them terminates the
  process.\<close>

fun run_blocks :: "('s \<Rightarrow> 's io) list \<Rightarrow> 's \<Rightarrow> 's io" where
  "run_blocks [] s = return_io s"
| "run_blocks (f # fs) s = bind_io (f s) (run_blocks fs)"

definition blocks :: "'o env \<Rightarrow> string option \<Rightarrow> ('o BucketInfo \<Rightarrow> 'o BucketInfo io) list" where
  "blocks env b =
     [accelerate_block env b, acl_block env b, analytics_block env b, cors_block env b,
      encryption_block env b, intelligent_tiering_block env b, inventory_block env b,
      lifecycle_block env b, location_block env b, logging_block env b,
      metrics_block env b, notification_block env b, ownership_controls_block env b,
      policy_block env b, policy_status_block env b, replication_block env b,
      request_payment_block env b, tagging_block env b, versioning_block env b]"

text \<open>The body of the loop after the test of the exclusion list: lines 68 to 390.\<close>

definition collect_bucket :: "'o env \<Rightarrow> string option \<Rightarrow> 'o BucketInfo io" where
  "collect_bucket env b = run_blocks (blocks env b) (new_BucketInfo b)"

section \<open>The loop over the buckets\<close>

text \<open>\<^verbatim>\<open>slices.Contains(strings.Split(os.Getenv("EXCLUDED_BUCKETS"), ","),
  aws.ToString(bucket.Name))\<close>\<close>

definition excluded :: "'o env \<Rightarrow> string option \<Rightarrow> bool" where
  "excluded env b =
     slices_Contains (strings_Split_comma (EXCLUDED_BUCKETS env)) (aws_ToString b)"

fun bucket_loop ::
  "'o env \<Rightarrow> string option list \<Rightarrow> 'o BucketInfo slice \<Rightarrow> 'o BucketInfo slice io" where
  "bucket_loop env [] bucketInfos = return_io bucketInfos"
| "bucket_loop env (b # bs) bucketInfos =
     (if excluded env b then bucket_loop env bs bucketInfos
      else bind_io (collect_bucket env b) (\<lambda>bucketInfo.
             bucket_loop env bs (go_append bucketInfos bucketInfo)))"

section \<open>The report\<close>

text \<open>
  \<^verbatim>\<open>encoding/json\<close> on the struct: a nil pointer and a nil slice are \<open>null\<close>, a pointer
  to a struct is the object of the struct, a slice that is not nil is an array, and the
  members of an object come in the order of the fields, under the name of the field or
  the name of its tag. The first error ends the encoding.
\<close>

definition encode_pointer :: "'o env \<Rightarrow> 'o option \<Rightarrow> string + json" where
  "encode_pointer env p =
     (case p of
        None \<Rightarrow> Inr JNull
      | Some x \<Rightarrow> (case marshal_output env x of Inl e \<Rightarrow> Inl e | Inr ms \<Rightarrow> Inr (JObject ms)))"

fun encode_all :: "('a \<Rightarrow> string + json) \<Rightarrow> 'a list \<Rightarrow> string + json list" where
  "encode_all f [] = Inr []"
| "encode_all f (x # xs) =
     (case f x of
        Inl e \<Rightarrow> Inl e
      | Inr j \<Rightarrow> (case encode_all f xs of Inl e \<Rightarrow> Inl e | Inr js \<Rightarrow> Inr (j # js)))"

definition encode_slice :: "('a \<Rightarrow> string + json) \<Rightarrow> 'a slice \<Rightarrow> string + json" where
  "encode_slice f s =
     (case s of
        Nil_slice \<Rightarrow> Inr JNull
      | Slice xs \<Rightarrow> (case encode_all f xs of Inl e \<Rightarrow> Inl e | Inr js \<Rightarrow> Inr (JArray js)))"

fun encode_fields :: "(string \<times> (string + json)) list \<Rightarrow> string + (string \<times> json) list" where
  "encode_fields [] = Inr []"
| "encode_fields ((k, v) # fs) =
     (case v of
        Inl e \<Rightarrow> Inl e
      | Inr j \<Rightarrow> (case encode_fields fs of Inl e \<Rightarrow> Inl e | Inr ms \<Rightarrow> Inr ((k, j) # ms)))"

definition encode_BucketInfo :: "'o env \<Rightarrow> 'o BucketInfo \<Rightarrow> string + json" where
  "encode_BucketInfo env info =
     (case encode_fields
        [(''name'', Inr (JString (Name info))),
         (''AccelerateConfig'', encode_pointer env (AccelerateConfig info)),
         (''ACL'', encode_pointer env (ACL info)),
         (''AnalyticsConfig'', encode_slice (encode_pointer env) (AnalyticsConfig info)),
         (''CORSConfig'', encode_pointer env (CORSConfig info)),
         (''EncryptionConfig'', encode_pointer env (EncryptionConfig info)),
         (''IntelligentTieringConfig'',
            encode_slice (encode_pointer env) (IntelligentTieringConfig info)),
         (''InventoryConfig'', encode_slice (encode_pointer env) (InventoryConfig info)),
         (''LifecycleConfig'', encode_pointer env (LifecycleConfig info)),
         (''Location'', encode_pointer env (Location info)),
         (''LoggingConfig'', encode_pointer env (LoggingConfig info)),
         (''MetricsConfig'', encode_slice (encode_pointer env) (MetricsConfig info)),
         (''NotificationConfig'', encode_pointer env (NotificationConfig info)),
         (''OwnershipControlsConfig'', encode_pointer env (OwnershipControlsConfig info)),
         (''Policy'', encode_pointer env (Policy info)),
         (''PolicyStatus'', encode_pointer env (PolicyStatus info)),
         (''ReplicationConfig'', encode_pointer env (ReplicationConfig info)),
         (''RequestPaymentConfig'', encode_pointer env (RequestPaymentConfig info)),
         (''TaggingConfig'', encode_pointer env (TaggingConfig info)),
         (''VersioningConfig'', encode_pointer env (VersioningConfig info))]
      of Inl e \<Rightarrow> Inl e | Inr ms \<Rightarrow> Inr (JObject ms))"

definition encode_report :: "'o env \<Rightarrow> 'o BucketInfo slice \<Rightarrow> string + json" where
  "encode_report env bucketInfos = encode_slice (encode_BucketInfo env) bucketInfos"

section \<open>The program\<close>

definition os_Create :: "'o env \<Rightarrow> unit io" where
  "os_Create env =
     (case create_file env of
        Some e \<Rightarrow> fatalf ''failed to create output file: '' e
      | None \<Rightarrow> emit Ev_Create)"

text \<open>\<^verbatim>\<open>encoder.Encode(bucketInfos)\<close> makes the whole text first and writes it to the
  file in one piece; when the encoding fails nothing is written.\<close>

definition write_report :: "'o env \<Rightarrow> 'o BucketInfo slice \<Rightarrow> unit io" where
  "write_report env bucketInfos =
     (case encode_report env bucketInfos of
        Inl e \<Rightarrow> fatalf ''failed to encode bucket information: '' e
      | Inr doc \<Rightarrow> emit (Ev_Write (render env doc)))"

text \<open>\<^verbatim>\<open>main\<close>; its value is \<^verbatim>\<open>bucketInfos\<close>, the report, when it returns.\<close>

definition main :: "'o env \<Rightarrow> 'o BucketInfo slice io" where
  "main env =
     bind_io (emit Ev_LoadDefaultConfig) (\<lambda>_.
       case load_config env of
         Some e \<Rightarrow> fatalf ''failed to load AWS SDK config: '' e
       | None \<Rightarrow>
     bind_io (emit Ev_ListBuckets) (\<lambda>_.
       case list_buckets env of
         Inl e \<Rightarrow> fatalf ''failed to list S3 buckets: '' e
       | Inr buckets \<Rightarrow>
     bind_io (bucket_loop env buckets (Slice [])) (\<lambda>bucketInfos.
     bind_io (os_Create env) (\<lambda>_.
     bind_io (write_report env bucketInfos) (\<lambda>_.
     bind_io (emit (Ev_Println ''Bucket information written to bucket_info.json'')) (\<lambda>_.
     return_io bucketInfos))))))"

section \<open>What a run leaves behind\<close>

text \<open>The exit status of the process: 1 after \<^verbatim>\<open>log.Fatalf\<close>, 2 after a panic, 0 when
  \<^verbatim>\<open>main\<close> returns.\<close>

fun exit_status :: "event list \<Rightarrow> nat" where
  "exit_status [] = 0"
| "exit_status (Ev_Fatalf m # tr) = 1"
| "exit_status (Ev_Panic # tr) = 2"
| "exit_status (e # tr) = exit_status tr"

text \<open>The contents of \<^verbatim>\<open>bucket_info.json\<close> after the events, from its contents before
  (\<^term>\<open>None\<close>: there is no such file). \<^verbatim>\<open>os.Create\<close> creates the file or truncates it.\<close>

fun file_after :: "string option \<Rightarrow> event list \<Rightarrow> string option" where
  "file_after f [] = f"
| "file_after f (Ev_Create # tr) = file_after (Some []) tr"
| "file_after f (Ev_Write s # tr) =
     file_after (case f of None \<Rightarrow> None | Some c \<Rightarrow> Some (c @ s)) tr"
| "file_after f (e # tr) = file_after f tr"

text \<open>What the process writes on standard error.\<close>

fun stderr_of :: "event list \<Rightarrow> string list" where
  "stderr_of [] = []"
| "stderr_of (Ev_Fatalf m # tr) = m # stderr_of tr"
| "stderr_of (Ev_Panic # tr) =
     ''panic: runtime error: invalid memory address or nil pointer dereference'' # stderr_of tr"
| "stderr_of (e # tr) = stderr_of tr"

section \<open>The calls of a run, as a script\<close>

text \<open>
  The calls that the blocks make do not depend on the outputs they store, only on the
  listings. So the calls of a bucket can be written down beforehand as a script: each
  step is a call together with the message of its \<^verbatim>\<open>log.Fatalf\<close> and the marker that the
  code looks for in the text of an error, if it looks for one.
\<close>

datatype step =
  Step (step_op: api) (step_bucket: "string option") (step_id: "string option")
       (step_msg: string) (step_marker: "string option")

fun is_listing :: "api \<Rightarrow> bool" where
  "is_listing ListBucketAnalyticsConfigurations = True"
| "is_listing ListBucketIntelligentTieringConfigurations = True"
| "is_listing ListBucketInventoryConfigurations = True"
| "is_listing ListBucketMetricsConfigurations = True"
| "is_listing _ = False"

text \<open>The error that the provider returns to a call, if any.\<close>

definition call_err :: "'o env \<Rightarrow> api \<Rightarrow> string option \<Rightarrow> string option \<Rightarrow> string option" where
  "call_err env op b i =
     (if is_listing op then err_of (list_call env op b) else err_of (get_call env op b i))"

definition fatal_event :: "string \<Rightarrow> string \<Rightarrow> string option \<Rightarrow> event" where
  "fatal_event msg e b =
     (case b of None \<Rightarrow> Ev_Panic | Some n \<Rightarrow> Ev_Fatalf (msg @ e @ '', '' @ n))"

text \<open>The event that ends the process at a step: the call returned an error, and the
  step has no marker or the text of the error does not contain it.\<close>

definition step_fatal :: "'o env \<Rightarrow> step \<Rightarrow> event option" where
  "step_fatal env s =
     (case call_err env (step_op s) (step_bucket s) (step_id s) of
        None \<Rightarrow> None
      | Some e \<Rightarrow>
          (case step_marker s of
             None \<Rightarrow> Some (fatal_event (step_msg s) e (step_bucket s))
           | Some m \<Rightarrow>
               if strings_Contains e m then None
               else Some (fatal_event (step_msg s) e (step_bucket s))))"

definition step_event :: "step \<Rightarrow> event" where
  "step_event s = Ev_Call (step_op s) (step_bucket s) (step_id s)"

text \<open>Running a script: the events, and whether the process is still alive.\<close>

fun exec :: "'o env \<Rightarrow> step list \<Rightarrow> event list \<times> bool" where
  "exec env [] = ([], True)"
| "exec env (s # ss) =
     (case step_fatal env s of
        Some f \<Rightarrow> ([step_event s, f], False)
      | None \<Rightarrow> (step_event s # fst (exec env ss), snd (exec env ss)))"

definition lift :: "event list \<times> bool \<Rightarrow> 'a \<Rightarrow> 'a io" where
  "lift x v = (fst x, if snd x then Some v else None)"

definition implements ::
  "'o env \<Rightarrow> ('s \<Rightarrow> 's io) \<Rightarrow> step list \<Rightarrow> ('s \<Rightarrow> 's) \<Rightarrow> bool" where
  "implements env f ss F = (\<forall>s. f s = lift (exec env ss) (F s))"

definition ids_of :: "string + string option list \<Rightarrow> string option list" where
  "ids_of l = (case l of Inl e \<Rightarrow> [] | Inr ids \<Rightarrow> ids)"

definition strict_step :: "api \<Rightarrow> string \<Rightarrow> string option \<Rightarrow> step list" where
  "strict_step op msg b = [Step op b None msg None]"

definition tolerant_step :: "api \<Rightarrow> string \<Rightarrow> string \<Rightarrow> string option \<Rightarrow> step list" where
  "tolerant_step op marker msg b = [Step op b None msg (Some marker)]"

definition listing_steps ::
  "'o env \<Rightarrow> api \<Rightarrow> string \<Rightarrow> api \<Rightarrow> string \<Rightarrow> string option \<Rightarrow> step list" where
  "listing_steps env lop lmsg gop gmsg b =
     Step lop b None lmsg None #
     map (\<lambda>i. Step gop b i gmsg None) (ids_of (list_call env lop b))"

definition block_steps :: "'o env \<Rightarrow> string option \<Rightarrow> step list list" where
  "block_steps env b =
    [strict_step GetBucketAccelerateConfiguration
       ''failed to get bucket accelerate configuration: '' b,
     strict_step GetBucketAcl ''failed to get bucket ACL: '' b,
     listing_steps env ListBucketAnalyticsConfigurations
       ''failed to list bucket analytics configurations: ''
       GetBucketAnalyticsConfiguration
       ''failed to get bucket analytics configuration: '' b,
     tolerant_step GetBucketCors ''NoSuchCORSConfiguration''
       ''failed to get bucket CORS configuration: '' b,
     strict_step GetBucketEncryption
       ''failed to get bucket encryption configuration: '' b,
     listing_steps env ListBucketIntelligentTieringConfigurations
       ''failed to list bucket intelligent tiering configurations: ''
       GetBucketIntelligentTieringConfiguration
       ''failed to get bucket intelligent tiering configuration: '' b,
     listing_steps env ListBucketInventoryConfigurations
       ''failed to list bucket inventory configurations: ''
       GetBucketInventoryConfiguration
       ''failed to get bucket inventory configuration: '' b,
     tolerant_step GetBucketLifecycleConfiguration ''NoSuchLifecycleConfiguration''
       ''failed to get bucket lifecycle configuration: '' b,
     strict_step GetBucketLocation ''failed to get bucket location: '' b,
     strict_step GetBucketLogging ''failed to get bucket logging configuration: '' b,
     listing_steps env ListBucketMetricsConfigurations
       ''failed to list bucket metrics configurations: ''
       GetBucketMetricsConfiguration
       ''failed to get bucket metrics configuration: '' b,
     strict_step GetBucketNotificationConfiguration
       ''failed to get bucket notification configuration: '' b,
     tolerant_step GetBucketOwnershipControls ''OwnershipControlsNotFoundError''
       ''failed to get bucket ownership controls configuration: '' b,
     tolerant_step GetBucketPolicy ''NoSuchBucketPolicy''
       ''failed to get bucket policy: '' b,
     tolerant_step GetBucketPolicyStatus ''NoSuchBucketPolicy''
       ''failed to get bucket policy status: '' b,
     tolerant_step GetBucketReplication ''ReplicationConfigurationNotFoundError''
       ''failed to get bucket replication configuration: '' b,
     strict_step GetBucketRequestPayment
       ''failed to get bucket request payment configuration: '' b,
     tolerant_step GetBucketTagging ''NoSuchTagSet''
       ''failed to get bucket tagging configuration: '' b,
     strict_step GetBucketVersioning
       ''failed to get bucket versioning configuration: '' b]"

definition bucket_steps :: "'o env \<Rightarrow> string option \<Rightarrow> step list" where
  "bucket_steps env b = concat (block_steps env b)"

text \<open>The outputs of the fetches of a list of IDs, appended one by one to a slice.\<close>

definition fetched ::
  "'o env \<Rightarrow> api \<Rightarrow> string option \<Rightarrow> string option list \<Rightarrow> 'o option slice \<Rightarrow> 'o option slice"
  where
  "fetched env op b ids s = foldl go_append s (map (\<lambda>i. resp_of (get_call env op b i)) ids)"

text \<open>The record of a bucket, when every call of its script went through.\<close>

definition snapshot :: "'o env \<Rightarrow> string option \<Rightarrow> 'o BucketInfo" where
  "snapshot env b =
     \<lparr> Name = aws_ToString b,
       AccelerateConfig = resp_of (get_call env GetBucketAccelerateConfiguration b None),
       ACL = resp_of (get_call env GetBucketAcl b None),
       AnalyticsConfig =
         fetched env GetBucketAnalyticsConfiguration b
           (ids_of (list_call env ListBucketAnalyticsConfigurations b)) Nil_slice,
       CORSConfig = resp_of (get_call env GetBucketCors b None),
       EncryptionConfig = resp_of (get_call env GetBucketEncryption b None),
       IntelligentTieringConfig =
         fetched env GetBucketIntelligentTieringConfiguration b
           (ids_of (list_call env ListBucketIntelligentTieringConfigurations b)) Nil_slice,
       InventoryConfig =
         fetched env GetBucketInventoryConfiguration b
           (ids_of (list_call env ListBucketInventoryConfigurations b)) Nil_slice,
       LifecycleConfig = resp_of (get_call env GetBucketLifecycleConfiguration b None),
       Location = resp_of (get_call env GetBucketLocation b None),
       LoggingConfig = resp_of (get_call env GetBucketLogging b None),
       MetricsConfig =
         fetched env GetBucketMetricsConfiguration b
           (ids_of (list_call env ListBucketMetricsConfigurations b)) Nil_slice,
       NotificationConfig = resp_of (get_call env GetBucketNotificationConfiguration b None),
       OwnershipControlsConfig = resp_of (get_call env GetBucketOwnershipControls b None),
       Policy = resp_of (get_call env GetBucketPolicy b None),
       PolicyStatus = resp_of (get_call env GetBucketPolicyStatus b None),
       ReplicationConfig = resp_of (get_call env GetBucketReplication b None),
       RequestPaymentConfig = resp_of (get_call env GetBucketRequestPayment b None),
       TaggingConfig = resp_of (get_call env GetBucketTagging b None),
       VersioningConfig = resp_of (get_call env GetBucketVersioning b None) \<rparr>"

definition processed :: "'o env \<Rightarrow> string option list \<Rightarrow> string option list" where
  "processed env bs = filter (\<lambda>b. \<not> excluded env b) bs"

definition scan_steps :: "'o env \<Rightarrow> string option list \<Rightarrow> step list" where
  "scan_steps env bs = concat (map (bucket_steps env) (processed env bs))"

text \<open>What each block stores in the record when its calls went through.\<close>

definition block_updates ::
  "'o env \<Rightarrow> string option \<Rightarrow> ('o BucketInfo \<Rightarrow> 'o BucketInfo) list" where
  "block_updates env b =
    [\<lambda>info. info\<lparr>AccelerateConfig :=
        resp_of (get_call env GetBucketAccelerateConfiguration b None)\<rparr>,
     \<lambda>info. info\<lparr>ACL := resp_of (get_call env GetBucketAcl b None)\<rparr>,
     \<lambda>info. info\<lparr>AnalyticsConfig :=
        fetched env GetBucketAnalyticsConfiguration b
          (ids_of (list_call env ListBucketAnalyticsConfigurations b)) (AnalyticsConfig info)\<rparr>,
     \<lambda>info. info\<lparr>CORSConfig := resp_of (get_call env GetBucketCors b None)\<rparr>,
     \<lambda>info. info\<lparr>EncryptionConfig := resp_of (get_call env GetBucketEncryption b None)\<rparr>,
     \<lambda>info. info\<lparr>IntelligentTieringConfig :=
        fetched env GetBucketIntelligentTieringConfiguration b
          (ids_of (list_call env ListBucketIntelligentTieringConfigurations b))
          (IntelligentTieringConfig info)\<rparr>,
     \<lambda>info. info\<lparr>InventoryConfig :=
        fetched env GetBucketInventoryConfiguration b
          (ids_of (list_call env ListBucketInventoryConfigurations b)) (InventoryConfig info)\<rparr>,
     \<lambda>info. info\<lparr>LifecycleConfig :=
        resp_of (get_call env GetBucketLifecycleConfiguration b None)\<rparr>,
     \<lambda>info. info\<lparr>Location := resp_of (get_call env GetBucketLocation b None)\<rparr>,
     \<lambda>info. info\<lparr>LoggingConfig := resp_of (get_call env GetBucketLogging b None)\<rparr>,
     \<lambda>info. info\<lparr>MetricsConfig :=
        fetched env GetBucketMetricsConfiguration b
          (ids_of (list_call env ListBucketMetricsConfigurations b)) (MetricsConfig info)\<rparr>,
     \<lambda>info. info\<lparr>NotificationConfig :=
        resp_of (get_call env GetBucketNotificationConfiguration b None)\<rparr>,
     \<lambda>info. info\<lparr>OwnershipControlsConfig :=
        resp_of (get_call env GetBucketOwnershipControls b None)\<rparr>,
     \<lambda>info. info\<lparr>Policy := resp_of (get_call env GetBucketPolicy b None)\<rparr>,
     \<lambda>info. info\<lparr>PolicyStatus := resp_of (get_call env GetBucketPolicyStatus b None)\<rparr>,
     \<lambda>info. info\<lparr>ReplicationConfig := resp_of (get_call env GetBucketReplication b None)\<rparr>,
     \<lambda>info. info\<lparr>RequestPaymentConfig :=
        resp_of (get_call env GetBucketRequestPayment b None)\<rparr>,
     \<lambda>info. info\<lparr>TaggingConfig := resp_of (get_call env GetBucketTagging b None)\<rparr>,
     \<lambda>info. info\<lparr>VersioningConfig := resp_of (get_call env GetBucketVersioning b None)\<rparr>]"

definition implements_all ::
  "'o env \<Rightarrow> ('s \<Rightarrow> 's io) \<Rightarrow> step list list \<Rightarrow> ('s \<Rightarrow> 's) list \<Rightarrow> bool" where
  "implements_all env f sss Fs =
     (\<forall>s. f s = lift (exec env (concat sss)) (foldl (\<lambda>x F. F x) s Fs))"

section \<open>Notions for stating the properties\<close>

text \<open>The marker that the code looks for in the error of an operation, for the seven
  operations where it looks for one.\<close>

fun marker_of :: "api \<Rightarrow> string option" where
  "marker_of GetBucketCors = Some ''NoSuchCORSConfiguration''"
| "marker_of GetBucketLifecycleConfiguration = Some ''NoSuchLifecycleConfiguration''"
| "marker_of GetBucketOwnershipControls = Some ''OwnershipControlsNotFoundError''"
| "marker_of GetBucketPolicy = Some ''NoSuchBucketPolicy''"
| "marker_of GetBucketPolicyStatus = Some ''NoSuchBucketPolicy''"
| "marker_of GetBucketReplication = Some ''ReplicationConfigurationNotFoundError''"
| "marker_of GetBucketTagging = Some ''NoSuchTagSet''"
| "marker_of _ = None"

text \<open>A call fails hard when the provider returns an error and the operation has no
  marker, or the text of the error does not contain the marker.\<close>

definition hard_failure :: "'o env \<Rightarrow> api \<Rightarrow> string option \<Rightarrow> string option \<Rightarrow> bool" where
  "hard_failure env op b i =
     (case call_err env op b i of
        None \<Rightarrow> False
      | Some e \<Rightarrow> (case marker_of op of None \<Rightarrow> True | Some m \<Rightarrow> \<not> strings_Contains e m))"

text \<open>The report of a run in which no call failed hard: the records of the buckets
  that are not excluded, in the order of the listing.\<close>

definition report :: "'o env \<Rightarrow> string option list \<Rightarrow> 'o BucketInfo slice" where
  "report env bs = Slice (map (snapshot env) (processed env bs))"

fun is_fatal :: "event \<Rightarrow> bool" where
  "is_fatal (Ev_Fatalf m) = True"
| "is_fatal Ev_Panic = True"
| "is_fatal _ = False"

fun is_call :: "event \<Rightarrow> bool" where
  "is_call (Ev_Call op b i) = True"
| "is_call _ = False"


section \<open>Example accounts\<close>

text \<open>A rendering of a document without indentation, for the examples.\<close>

fun join_comma :: "string list \<Rightarrow> string" where
  "join_comma [] = []"
| "join_comma [x] = x"
| "join_comma (x # y # ys) = x @ '','' @ join_comma (y # ys)"

definition quoted :: "string \<Rightarrow> string" where
  "quoted s = [CHR 0x22] @ s @ [CHR 0x22]"

fun compact :: "json \<Rightarrow> string" where
  "compact JNull = ''null''"
| "compact (JBool b) = (if b then ''true'' else ''false'')"
| "compact (JNumber n) = n"
| "compact (JString s) = quoted s"
| "compact (JArray js) = ''['' @ join_comma (map compact js) @ '']''"
| "compact (JObject ms) =
     ''{'' @ join_comma (map (\<lambda>m. quoted (fst m) @ '':'' @ compact (snd m)) ms) @ ''}''"

text \<open>
  An account in which every call succeeds and no bucket has a configuration with an ID.
  The output of a call is a string (the ID that was asked for, if any), and its JSON
  object has the one member \<open>Id\<close>.
\<close>

definition quiet_account :: "string option list \<Rightarrow> string \<Rightarrow> string env" where
  "quiet_account bs excl =
     \<lparr> EXCLUDED_BUCKETS = excl,
       load_config = None,
       list_buckets = Inr bs,
       get_call = (\<lambda>op b i. Inr (aws_ToString i)),
       list_call = (\<lambda>op b. Inr []),
       create_file = None,
       marshal_output = (\<lambda>x. Inr [(''Id'', JString x)]),
       render = compact \<rparr>"

text \<open>The buckets \<open>a\<close>, \<open>b\<close> and \<open>c\<close>, with \<open>b\<close> on the exclusion list.\<close>

definition account_abc :: "string env" where
  "account_abc = quiet_account [Some ''a'', Some ''b'', Some ''c''] ''b''"

text \<open>One bucket \<open>a\<close>; the variable \<^verbatim>\<open>EXCLUDED_BUCKETS\<close> is not set.\<close>

definition account_a :: "string env" where
  "account_a = quiet_account [Some ''a''] []"

text \<open>A listing with one bucket whose name is the empty string; the variable is not set.\<close>

definition account_empty_name :: "string env" where
  "account_empty_name = quiet_account [Some []] []"

text \<open>Bucket \<open>a\<close> with the two inventory configurations \<open>inv1\<close> and \<open>inv2\<close>.\<close>

definition account_inventory :: "string env" where
  "account_inventory =
     account_a\<lparr>list_call := (\<lambda>op b.
       if op = ListBucketInventoryConfigurations then Inr [Some ''inv1'', Some ''inv2'']
       else Inr [])\<rparr>"

text \<open>Bucket \<open>a\<close> without a CORS configuration: the provider answers with its error.\<close>

definition account_no_cors :: "string env" where
  "account_no_cors =
     account_a\<lparr>get_call := (\<lambda>op b i.
       if op = GetBucketCors
       then Inl ''api error NoSuchCORSConfiguration: The CORS configuration does not exist''
       else Inr (aws_ToString i))\<rparr>"

text \<open>Bucket \<open>a\<close> whose ACL the caller may not read.\<close>

definition account_denied :: "string env" where
  "account_denied =
     account_a\<lparr>get_call := (\<lambda>op b i.
       if op = GetBucketAcl then Inl ''api error AccessDenied: Access Denied''
       else Inr (aws_ToString i))\<rparr>"

text \<open>An account whose buckets cannot be listed.\<close>

definition account_unlisted :: "string env" where
  "account_unlisted = account_a\<lparr>list_buckets := Inl ''api error AccessDenied: Access Denied''\<rparr>"

section \<open>The program runs its script\<close>

lemma bind_return [simp]: "bind_io (return_io x) f = f x"
  by (simp add: bind_io_def return_io_def split: prod.splits)

lemma fatalf_bucket_event: "fatalf_bucket msg e b = ([fatal_event msg e b], None)"
  by (simp add: fatalf_bucket_def fatal_event_def split: option.splits)

lemma exec_append:
  "exec env (xs @ ys) =
     (if snd (exec env xs) then (fst (exec env xs) @ fst (exec env ys), snd (exec env ys))
      else exec env xs)"
  by (induction xs) (auto split: option.splits)

lemma implements_strict:
  "\<not> is_listing op \<Longrightarrow>
   implements env (strict_block env op msg store b) (strict_step op msg b)
     (store (resp_of (get_call env op b None)))"
  by (auto simp: implements_def strict_block_def strict_step_def lift_def bind_io_def
      call_get_def step_fatal_def call_err_def step_event_def fatalf_bucket_event return_io_def
      split: option.splits)

lemma implements_tolerant:
  "\<not> is_listing op \<Longrightarrow>
   implements env (tolerant_block env op marker msg store b) (tolerant_step op marker msg b)
     (store (resp_of (get_call env op b None)))"
  by (auto simp: implements_def tolerant_block_def tolerant_step_def lift_def bind_io_def
      call_get_def step_fatal_def call_err_def step_event_def fatalf_bucket_event return_io_def
      split: option.splits)

lemma fetch_each_exec:
  "\<not> is_listing op \<Longrightarrow>
   fetch_each env op msg push b ids info =
     lift (exec env (map (\<lambda>i. Step op b i msg None) ids))
       (foldl (\<lambda>x r. push r x) info (map (\<lambda>i. resp_of (get_call env op b i)) ids))"
  by (induction ids arbitrary: info)
     (auto simp: lift_def bind_io_def return_io_def
      call_get_def step_fatal_def call_err_def step_event_def fatalf_bucket_event
      split: option.splits)

lemma implements_listing:
  "is_listing lop \<Longrightarrow> \<not> is_listing gop \<Longrightarrow>
   implements env (listing_block env lop lmsg gop gmsg push b)
     (listing_steps env lop lmsg gop gmsg b)
     (\<lambda>info. foldl (\<lambda>x r. push r x) info
        (map (\<lambda>i. resp_of (get_call env gop b i)) (ids_of (list_call env lop b))))"
  by (auto simp: implements_def listing_block_def listing_steps_def lift_def bind_io_def
      call_list_def step_fatal_def call_err_def step_event_def fatalf_bucket_event
      fetch_each_exec ids_of_def err_of_def
      split: option.splits sum.splits)

lemma push_Analytics:
  "foldl (\<lambda>x r. x\<lparr>AnalyticsConfig := go_append (AnalyticsConfig x) r\<rparr>) info rs =
   info\<lparr>AnalyticsConfig := foldl go_append (AnalyticsConfig info) rs\<rparr>"
  by (induction rs arbitrary: info) simp_all

lemma push_IntelligentTiering:
  "foldl (\<lambda>x r. x\<lparr>IntelligentTieringConfig := go_append (IntelligentTieringConfig x) r\<rparr>) info rs =
   info\<lparr>IntelligentTieringConfig := foldl go_append (IntelligentTieringConfig info) rs\<rparr>"
  by (induction rs arbitrary: info) simp_all

lemma push_Inventory:
  "foldl (\<lambda>x r. x\<lparr>InventoryConfig := go_append (InventoryConfig x) r\<rparr>) info rs =
   info\<lparr>InventoryConfig := foldl go_append (InventoryConfig info) rs\<rparr>"
  by (induction rs arbitrary: info) simp_all

lemma push_Metrics:
  "foldl (\<lambda>x r. x\<lparr>MetricsConfig := go_append (MetricsConfig x) r\<rparr>) info rs =
   info\<lparr>MetricsConfig := foldl go_append (MetricsConfig info) rs\<rparr>"
  by (induction rs arbitrary: info) simp_all

lemma implements_all_Nil: "implements_all env (run_blocks []) [] []"
  by (simp add: implements_all_def lift_def return_io_def)

lemma implements_all_Cons:
  "implements env f ss F \<Longrightarrow> implements_all env (run_blocks fs) sss Fs \<Longrightarrow>
   implements_all env (run_blocks (f # fs)) (ss # sss) (F # Fs)"
  by (auto simp: implements_def implements_all_def lift_def bind_io_def exec_append
      split: prod.splits)

lemmas block_defs =
  accelerate_block_def acl_block_def analytics_block_def cors_block_def encryption_block_def
  intelligent_tiering_block_def inventory_block_def lifecycle_block_def location_block_def
  logging_block_def metrics_block_def notification_block_def ownership_controls_block_def
  policy_block_def policy_status_block_def replication_block_def request_payment_block_def
  tagging_block_def versioning_block_def

lemma implements_listing_fetched:
  "is_listing lop \<Longrightarrow> \<not> is_listing gop \<Longrightarrow>
   (\<And>info. foldl (\<lambda>x r. push r x) info
        (map (\<lambda>i. resp_of (get_call env gop b i)) (ids_of (list_call env lop b))) = F info) \<Longrightarrow>
   implements env (listing_block env lop lmsg gop gmsg push b)
     (listing_steps env lop lmsg gop gmsg b) F"
  using implements_listing [of lop gop env lmsg gmsg push b]
  by (simp add: implements_def)

lemma blocks_implement:
  "implements_all env (run_blocks (blocks env b)) (block_steps env b) (block_updates env b)"
  unfolding blocks_def block_steps_def block_updates_def block_defs
  apply (intro implements_all_Cons implements_all_Nil implements_strict implements_tolerant
      implements_listing_fetched)
  apply (simp_all add: fetched_def push_Analytics push_IntelligentTiering push_Inventory
      push_Metrics)
  done

lemma snapshot_updates:
  "foldl (\<lambda>x F. F x) (new_BucketInfo b) (block_updates env b) = snapshot env b"
  by (simp add: block_updates_def new_BucketInfo_def snapshot_def)

lemma collect_bucket_exec:
  "collect_bucket env b = lift (exec env (bucket_steps env b)) (snapshot env b)"
  using blocks_implement [of env b]
  by (simp add: implements_all_def collect_bucket_def bucket_steps_def snapshot_updates)

lemma foldl_go_append: "foldl go_append (Slice xs) ys = Slice (xs @ ys)"
  by (induction ys arbitrary: xs) simp_all

lemma bucket_loop_exec:
  "bucket_loop env bs acc =
     lift (exec env (scan_steps env bs))
       (foldl go_append acc (map (snapshot env) (processed env bs)))"
  by (induction bs arbitrary: acc)
     (auto simp: scan_steps_def processed_def lift_def return_io_def collect_bucket_exec
        bind_io_def exec_append)


text \<open>The whole of \<^verbatim>\<open>main\<close>, case by case.\<close>

lemma main_exec:
  "main env =
     (case load_config env of
        Some e \<Rightarrow>
          ([Ev_LoadDefaultConfig, Ev_Fatalf (''failed to load AWS SDK config: '' @ e)], None)
      | None \<Rightarrow>
     (case list_buckets env of
        Inl e \<Rightarrow>
          ([Ev_LoadDefaultConfig, Ev_ListBuckets,
            Ev_Fatalf (''failed to list S3 buckets: '' @ e)], None)
      | Inr bs \<Rightarrow>
     (if \<not> snd (exec env (scan_steps env bs))
      then (Ev_LoadDefaultConfig # Ev_ListBuckets # fst (exec env (scan_steps env bs)), None)
      else
     (case create_file env of
        Some e \<Rightarrow>
          (Ev_LoadDefaultConfig # Ev_ListBuckets # fst (exec env (scan_steps env bs)) @
             [Ev_Fatalf (''failed to create output file: '' @ e)], None)
      | None \<Rightarrow>
     (case encode_report env (report env bs) of
        Inl e \<Rightarrow>
          (Ev_LoadDefaultConfig # Ev_ListBuckets # fst (exec env (scan_steps env bs)) @
             [Ev_Create, Ev_Fatalf (''failed to encode bucket information: '' @ e)], None)
      | Inr doc \<Rightarrow>
          (Ev_LoadDefaultConfig # Ev_ListBuckets # fst (exec env (scan_steps env bs)) @
             [Ev_Create, Ev_Write (render env doc),
              Ev_Println ''Bucket information written to bucket_info.json''],
           Some (report env bs)))))))"
  by (simp add: main_def bind_io_def emit_def fatalf_def bucket_loop_exec lift_def os_Create_def
      write_report_def return_io_def report_def foldl_go_append
      split: option.splits sum.splits)

section \<open>Properties of the scripts\<close>

lemma exec_ok_events: "snd (exec env ss) \<Longrightarrow> fst (exec env ss) = map step_event ss"
  by (induction ss) (auto split: option.splits)

lemma exec_ok_iff: "snd (exec env ss) \<longleftrightarrow> (\<forall>s\<in>set ss. step_fatal env s = None)"
  by (induction ss) (auto split: option.splits)

lemma exec_fail:
  "\<not> snd (exec env ss) \<Longrightarrow>
   \<exists>pre s post f. ss = pre @ s # post \<and> (\<forall>x\<in>set pre. step_fatal env x = None) \<and>
     step_fatal env s = Some f \<and> fst (exec env ss) = map step_event pre @ [step_event s, f]"
proof (induction ss)
  case Nil
  then show ?case by simp
next
  case (Cons a ss)
  show ?case
  proof (cases "step_fatal env a")
    case (Some f)
    then have "a # ss = [] @ a # ss \<and> (\<forall>x\<in>set []. step_fatal env x = None) \<and>
      step_fatal env a = Some f \<and> fst (exec env (a # ss)) = map step_event [] @ [step_event a, f]"
      by simp
    then show ?thesis by blast
  next
    case None
    with Cons.prems have "\<not> snd (exec env ss)" by simp
    from Cons.IH [OF this] obtain pre s post f where
      h: "ss = pre @ s # post" "\<forall>x\<in>set pre. step_fatal env x = None"
         "step_fatal env s = Some f" "fst (exec env ss) = map step_event pre @ [step_event s, f]"
      by blast
    from h None have "a # ss = (a # pre) @ s # post \<and>
      (\<forall>x\<in>set (a # pre). step_fatal env x = None) \<and> step_fatal env s = Some f \<and>
      fst (exec env (a # ss)) = map step_event (a # pre) @ [step_event s, f]"
      by simp
    then show ?thesis by blast
  qed
qed

lemma block_steps_marker:
  "s \<in> set (bucket_steps env b) \<Longrightarrow> step_marker s = marker_of (step_op s) \<and> step_bucket s = b"
  by (auto simp: bucket_steps_def block_steps_def strict_step_def tolerant_step_def
      listing_steps_def)

lemma scan_steps_marker:
  "s \<in> set (scan_steps env bs) \<Longrightarrow>
   step_marker s = marker_of (step_op s) \<and> step_bucket s \<in> set bs \<and>
   \<not> excluded env (step_bucket s)"
  by (auto simp: scan_steps_def processed_def dest: block_steps_marker)

lemma step_fatal_hard:
  "step_marker s = marker_of (step_op s) \<Longrightarrow>
   (step_fatal env s \<noteq> None) = hard_failure env (step_op s) (step_bucket s) (step_id s)"
  by (simp add: step_fatal_def hard_failure_def split: option.splits)

lemma step_fatal_event:
  "step_fatal env s = Some f \<Longrightarrow>
   \<exists>e. call_err env (step_op s) (step_bucket s) (step_id s) = Some e \<and>
       f = fatal_event (step_msg s) e (step_bucket s)"
  by (auto simp: step_fatal_def split: option.splits if_splits)

lemma fatal_event_cases:
  "fatal_event msg e b = (case b of None \<Rightarrow> Ev_Panic | Some n \<Rightarrow> Ev_Fatalf (msg @ e @ '', '' @ n))"
  by (simp add: fatal_event_def)

lemma exit_status_calls:
  "\<forall>e\<in>set xs. \<not> is_fatal e \<Longrightarrow> exit_status (xs @ ys) = exit_status ys"
proof (induction xs)
  case Nil
  then show ?case by simp
next
  case (Cons a xs)
  then show ?case by (cases a) simp_all
qed

lemma file_after_untouched:
  "Ev_Create \<notin> set tr \<Longrightarrow> \<forall>s. Ev_Write s \<notin> set tr \<Longrightarrow> file_after f tr = f"
proof (induction tr arbitrary: f)
  case Nil
  then show ?case by simp
next
  case (Cons a tr)
  then show ?case by (cases a) auto
qed

lemma step_event_call [simp]: "is_call (step_event s)" "\<not> is_fatal (step_event s)"
  "step_event s \<noteq> Ev_Create" "step_event s \<noteq> Ev_Write w"
  by (simp_all add: step_event_def)

section \<open>Errors that end the run\<close>

text \<open>
  Claim C3. In the scanner, whenever a sub-resource call is made for a bucket and the
  provider returns an error that is not an expected-absence error of that call (the
  operation has no marker, as all the list and per-ID get operations and the strict single
  operations, or the text of the error does not contain its marker), the process ends
  there: the event after the call is the fatal one and it is the last event, the run has
  no report, the exit status is not zero, something was written on standard error, and
  the output file was neither created nor written, so it is as it was before the run.
  (For a bucket with a name the fatal event is the \<^verbatim>\<open>log.Fatalf\<close> with the message of the
  call; for a bucket whose \<^verbatim>\<open>Name\<close> is nil it is the panic of the dereference.)
\<close>

theorem hard_failure_terminates:
  assumes run: "main env = (tr, r)"
    and call: "Ev_Call op b i \<in> set tr"
    and hard: "hard_failure env op b i"
  shows "\<exists>pre msg e. tr = pre @ [Ev_Call op b i, fatal_event msg e b] \<and>
           call_err env op b i = Some e \<and>
           r = None \<and> exit_status tr \<noteq> 0 \<and> stderr_of tr \<noteq> [] \<and>
           Ev_Create \<notin> set tr \<and> (\<forall>w. Ev_Write w \<notin> set tr) \<and>
           (\<forall>f. file_after f tr = f)"
proof -
  have bad: "step_fatal env s \<noteq> None"
    if "s \<in> set (scan_steps env bs)" "step_event s = Ev_Call op b i" for s bs
    using that hard scan_steps_marker [of s env bs] step_fatal_hard [of s env]
    by (simp add: step_event_def)
  from call run obtain bs where cfg: "load_config env = None" and bs: "list_buckets env = Inr bs"
    by (auto simp: main_exec split: option.splits sum.splits)
  let ?X = "exec env (scan_steps env bs)"
  have dead: "\<not> snd ?X"
  proof
    assume ok: "snd ?X"
    with call run cfg bs have "Ev_Call op b i \<in> set (map step_event (scan_steps env bs))"
      by (auto simp: main_exec exec_ok_events split: option.splits sum.splits)
    then obtain s where "s \<in> set (scan_steps env bs)" "step_event s = Ev_Call op b i" by auto
    from bad [OF this] ok show False by (simp add: exec_ok_iff \<open>s \<in> set (scan_steps env bs)\<close>)
  qed
  from exec_fail [OF dead] obtain pre s post f where
    h: "scan_steps env bs = pre @ s # post" "\<forall>x\<in>set pre. step_fatal env x = None"
       "step_fatal env s = Some f" "fst ?X = map step_event pre @ [step_event s, f]"
    by blast
  from step_fatal_event [OF h(3)] obtain e where
    e: "call_err env (step_op s) (step_bucket s) (step_id s) = Some e"
       "f = fatal_event (step_msg s) e (step_bucket s)" by blast
  have tr: "tr = (Ev_LoadDefaultConfig # Ev_ListBuckets # map step_event pre) @ [step_event s, f]"
    and r: "r = None"
    using run cfg bs dead h(4) by (simp_all add: main_exec)
  have notpre: "Ev_Call op b i \<notin> set (map step_event pre)"
  proof
    assume "Ev_Call op b i \<in> set (map step_event pre)"
    then obtain x where x: "x \<in> set pre" "step_event x = Ev_Call op b i" by auto
    then have "x \<in> set (scan_steps env bs)" by (simp add: h(1))
    from bad [OF this x(2)] h(2) x(1) show False by simp
  qed
  have ff: "is_fatal f" "\<not> is_call f" "f \<noteq> Ev_Create" "\<And>w. f \<noteq> Ev_Write w"
    using e(2) by (simp_all add: fatal_event_cases split: option.splits)
  have "Ev_Call op b i = step_event s"
    using call notpre ff(2) unfolding tr by auto
  then have s: "step_op s = op" "step_bucket s = b" "step_id s = i"
    by (simp_all add: step_event_def)
  have t1: "tr = (Ev_LoadDefaultConfig # Ev_ListBuckets # map step_event pre) @
              [Ev_Call op b i, fatal_event (step_msg s) e b]"
    using tr e(2) s by (simp add: step_event_def)
  have nofat: "\<forall>x\<in>set (Ev_LoadDefaultConfig # Ev_ListBuckets # map step_event pre @ [step_event s]).
      \<not> is_fatal x" by auto
  have ex: "exit_status tr \<noteq> 0"
    using exit_status_calls [OF nofat, of "[f]"] ff(1) unfolding tr by (cases f) simp_all
  have nc: "Ev_Create \<notin> set tr" "\<And>w. Ev_Write w \<notin> set tr"
    using ff unfolding tr by (auto simp: step_event_def)
  have se: "stderr_of tr \<noteq> []"
  proof -
    have "\<And>xs. stderr_of (xs @ [f]) \<noteq> []"
    proof -
      fix xs show "stderr_of (xs @ [f]) \<noteq> []"
        using ff(1) by (induction xs rule: stderr_of.induct) (cases f; simp)+
    qed
    from this [of "Ev_LoadDefaultConfig # Ev_ListBuckets # map step_event pre @ [step_event s]"]
    show ?thesis unfolding tr by simp
  qed
  from t1 e(1) s r ex se nc file_after_untouched [of tr] show ?thesis by blast
qed

theorem hard_failure_terminates_witness:
  "Ev_Call GetBucketAcl (Some ''a'') None \<in> set (fst (main account_denied)) \<and>
   hard_failure account_denied GetBucketAcl (Some ''a'') None \<and>
   snd (main account_denied) = None \<and>
   exit_status (fst (main account_denied)) \<noteq> 0 \<and>
   stderr_of (fst (main account_denied)) \<noteq> [] \<and>
   file_after (Some ''old'') (fst (main account_denied)) = Some ''old''"
proof -
  have c: "Ev_Call GetBucketAcl (Some ''a'') None \<in> set (fst (main account_denied))"
    by code_simp
  have h: "hard_failure account_denied GetBucketAcl (Some ''a'') None"
    by code_simp
  from hard_failure_terminates [OF prod.collapse [symmetric] c h] c h
  show ?thesis by blast
qed

end
